theory Spec2Isabelle
  imports Main "HOL-Library.Word"
begin

section \<open>JavaScript values\<close>

text \<open>
  The values that travel through the client: what \<^verbatim>\<open>JSON.parse\<close> returns, what the
  remote service answers and what the store holds. Numbers are kept as integers: no
  property below looks at a fractional value, only at zero versus non-zero and at
  lengths. \<open>JUndefined\<close> is the result of reading a property that is not there.
\<close>

datatype jsval =
    JUndefined
  | JNull
  | JBool bool
  | JNum int
  | JStr string
  | JArr "jsval list"
  | JObj "(string \<times> jsval) list"

text \<open>JavaScript truthiness, as used by \<^verbatim>\<open>!x\<close>, \<^verbatim>\<open>x || y\<close> and \<^verbatim>\<open>x && y\<close>.\<close>

fun truthy :: "jsval \<Rightarrow> bool" where
  "truthy JUndefined = False"
| "truthy JNull = False"
| "truthy (JBool b) = b"
| "truthy (JNum n) = (n \<noteq> 0)"
| "truthy (JStr s) = (s \<noteq> [])"
| "truthy (JArr xs) = True"
| "truthy (JObj kvs) = True"

text \<open>\<^verbatim>\<open>a || b\<close> on values.\<close>

definition js_or :: "jsval \<Rightarrow> jsval \<Rightarrow> jsval" where
  "js_or a b = (if truthy a then a else b)"

text \<open>
  An exception thrown by the language itself. Reading a property of \<^verbatim>\<open>null\<close> or
  \<^verbatim>\<open>undefined\<close> throws a \<^verbatim>\<open>TypeError\<close>.
\<close>

datatype jsexn = TypeError

text \<open>
  Property read \<^verbatim>\<open>v.k\<close> for a property name \<open>k\<close>. Arrays and strings have a
  \<^verbatim>\<open>length\<close>; an object answers with its own entry for the key; anything else is
  \<^verbatim>\<open>undefined\<close>. The code modelled below reads named properties only
  (\<^verbatim>\<open>length\<close>, \<^verbatim>\<open>valid\<close>, \<^verbatim>\<open>invalid\<close>, \<^verbatim>\<open>detail\<close>), so the elements of arrays and
  strings are not reachable through \<open>get_prop\<close>.
\<close>

fun get_prop :: "jsval \<Rightarrow> string \<Rightarrow> jsexn + jsval" where
  "get_prop JUndefined k = Inl TypeError"
| "get_prop JNull k = Inl TypeError"
| "get_prop (JArr xs) k = Inr (if k = ''length'' then JNum (int (length xs)) else JUndefined)"
| "get_prop (JStr s) k = Inr (if k = ''length'' then JNum (int (length s)) else JUndefined)"
| "get_prop (JObj kvs) k = Inr (case map_of kvs k of None \<Rightarrow> JUndefined | Some v \<Rightarrow> v)"
| "get_prop (JBool b) k = Inr JUndefined"
| "get_prop (JNum n) k = Inr JUndefined"

text \<open>Optional chaining \<^verbatim>\<open>v?.k\<close>: \<^verbatim>\<open>undefined\<close> instead of an exception.\<close>

definition get_opt :: "jsval \<Rightarrow> string \<Rightarrow> jsval" where
  "get_opt v k = (case get_prop v k of Inl _ \<Rightarrow> JUndefined | Inr x \<Rightarrow> x)"


section \<open>Shared state store (store/appStore)\<close>

text \<open>
  The zustand store. Its slices are the fields of the record; \<open>loading\<close> is the object
  of per-operation flags, a map from operation key to flag, empty at the start.
  \<^verbatim>\<open>setReturnsResult\<close>, which writes a slice whose name is computed from its argument,
  has no caller in the repository and is left out.
\<close>

record store =
  transactions :: jsval
  validTransactions :: jsval
  invalidTransactions :: jsval
  filterResult :: jsval
  npsResult :: jsval
  indexResult :: jsval
  activeSection :: string
  loading :: "string \<rightharpoonup> bool"
  performanceMetrics :: jsval

definition initial_store :: store where
  "initial_store =
     \<lparr> transactions = JArr [], validTransactions = JArr [], invalidTransactions = JArr [],
       filterResult = JNull, npsResult = JNull, indexResult = JNull,
       activeSection = ''parser'', loading = Map.empty, performanceMetrics = JNull \<rparr>"

text \<open>
  The object a setter hands to zustand's \<^verbatim>\<open>set\<close>: the slices it names, each with its new
  value. A slice that the object does not name is \<open>None\<close>.
\<close>

record patch =
  p_transactions :: "jsval option"
  p_validTransactions :: "jsval option"
  p_invalidTransactions :: "jsval option"
  p_filterResult :: "jsval option"
  p_npsResult :: "jsval option"
  p_indexResult :: "jsval option"
  p_activeSection :: "string option"
  p_loading :: "(string \<rightharpoonup> bool) option"
  p_performanceMetrics :: "jsval option"

definition no_patch :: patch where
  "no_patch =
     \<lparr> p_transactions = None, p_validTransactions = None, p_invalidTransactions = None,
       p_filterResult = None, p_npsResult = None, p_indexResult = None,
       p_activeSection = None, p_loading = None, p_performanceMetrics = None \<rparr>"

definition pick :: "'a option \<Rightarrow> 'a \<Rightarrow> 'a" where
  "pick new old = (case new of None \<Rightarrow> old | Some v \<Rightarrow> v)"

text \<open>
  zustand's \<^verbatim>\<open>set(partial)\<close>: a shallow merge, the new state takes each slice from the
  partial object when it is named there and from the old state otherwise.
\<close>

definition zustand_merge :: "store \<Rightarrow> patch \<Rightarrow> store" where
  "zustand_merge s p =
     \<lparr> transactions = pick (p_transactions p) (transactions s),
       validTransactions = pick (p_validTransactions p) (validTransactions s),
       invalidTransactions = pick (p_invalidTransactions p) (invalidTransactions s),
       filterResult = pick (p_filterResult p) (filterResult s),
       npsResult = pick (p_npsResult p) (npsResult s),
       indexResult = pick (p_indexResult p) (indexResult s),
       activeSection = pick (p_activeSection p) (activeSection s),
       loading = pick (p_loading p) (loading s),
       performanceMetrics = pick (p_performanceMetrics p) (performanceMetrics s) \<rparr>"

text \<open>\<^verbatim>\<open>set(fn)\<close>: the partial object is computed from the current state.\<close>

definition zustand_set :: "(store \<Rightarrow> patch) \<Rightarrow> store \<Rightarrow> store" where
  "zustand_set f s = zustand_merge s (f s)"

definition setTransactions :: "jsval \<Rightarrow> store \<Rightarrow> store" where
  "setTransactions t = zustand_set (\<lambda>_. no_patch\<lparr>p_transactions := Some t\<rparr>)"

definition setValidationResult :: "jsval \<Rightarrow> jsval \<Rightarrow> store \<Rightarrow> store" where
  "setValidationResult valid invalid =
     zustand_set (\<lambda>_. no_patch\<lparr>p_validTransactions := Some valid,
                                p_invalidTransactions := Some invalid\<rparr>)"

definition setFilterResult :: "jsval \<Rightarrow> store \<Rightarrow> store" where
  "setFilterResult r = zustand_set (\<lambda>_. no_patch\<lparr>p_filterResult := Some r\<rparr>)"

definition setActiveSection :: "string \<Rightarrow> store \<Rightarrow> store" where
  "setActiveSection sec = zustand_set (\<lambda>_. no_patch\<lparr>p_activeSection := Some sec\<rparr>)"

text \<open>
  \<^verbatim>\<open>setLoading: (key, val) => set((state) => ({ loading: { ...state.loading, [key]: val } }))\<close>
\<close>

definition setLoading :: "string \<Rightarrow> bool \<Rightarrow> store \<Rightarrow> store" where
  "setLoading key val =
     zustand_set (\<lambda>state. no_patch\<lparr>p_loading := Some ((loading state)(key \<mapsto> val))\<rparr>)"

definition setPerformanceMetrics :: "jsval \<Rightarrow> store \<Rightarrow> store" where
  "setPerformanceMetrics m = zustand_set (\<lambda>_. no_patch\<lparr>p_performanceMetrics := Some m\<rparr>)"


section \<open>Windowed renderer (components/VirtualTable)\<close>

text \<open>
  A column: \<^verbatim>\<open>width\<close> is optional, and a cell gets a \<^verbatim>\<open>flex\<close> style only when the
  width is truthy, that is present and not the empty string.
\<close>

record column =
  col_key :: string
  col_label :: string
  col_width :: "string option"

record header_cell =
  cell_label :: string
  cell_flex :: "string option"

text \<open>The props that \<^verbatim>\<open>VirtualTable\<close> passes to react-window's \<^verbatim>\<open>FixedSizeList\<close>.\<close>

record list_props =
  lp_height :: nat
  lp_itemCount :: nat
  lp_itemSize :: nat

text \<open>
  What the component returns: the placeholder, or the bordered box with the header row,
  the list and the footer that shows the number of rows. Which rows the list mounts, and
  with what cells, is the business of react-window calling \<^verbatim>\<open>Row\<close>; it is not part of
  the view.
\<close>

datatype view =
    NoData string
  | Table "header_cell list" list_props nat

definition headerRow :: "column list \<Rightarrow> header_cell list" where
  "headerRow columns =
     map (\<lambda>col. \<lparr> cell_label = col_label col,
                  cell_flex = (case col_width col of
                                 None \<Rightarrow> None
                               | Some w \<Rightarrow> if w \<noteq> [] then Some (''0 0 '' @ w) else None) \<rparr>)
         columns"

text \<open>
  \<open>data\<close> is \<open>None\<close> for a missing (\<^verbatim>\<open>null\<close>, \<^verbatim>\<open>undefined\<close>) collection and \<open>Some rows\<close>
  for an array. \<open>height\<close> and \<open>itemSize\<close> default to 400 and 44.
\<close>

definition VirtualTable :: "jsval list option \<Rightarrow> column list \<Rightarrow> nat option \<Rightarrow> nat option \<Rightarrow> view" where
  "VirtualTable data columns height itemSize =
     (case data of
        None \<Rightarrow> NoData ''No data to display''
      | Some rows \<Rightarrow>
          if length rows = 0 then NoData ''No data to display''
          else Table (headerRow columns)
                 \<lparr> lp_height = pick height 400, lp_itemCount = length rows,
                   lp_itemSize = pick itemSize 44 \<rparr>
                 (length rows))"


section \<open>Ingestion controller (components/JsonInput) and background decoder\<close>

text \<open>
  Raw text is a JavaScript string: a sequence of UTF-16 code units, which is what
  \<^verbatim>\<open>text.length\<close> counts.
\<close>

type_synonym jstext = "16 word list"

text \<open>
  \<^verbatim>\<open>JSON.parse\<close> belongs to the host, not to the repository: it is a parameter of the
  model. It either returns the decoded value or throws an error whose \<^verbatim>\<open>message\<close> is
  the string on the left.
\<close>

type_synonym decoder = "jstext \<Rightarrow> string + jsval"

text \<open>The message a background decoder posts back: \<^verbatim>\<open>{success: true, data}\<close> or
  \<^verbatim>\<open>{success: false, error}\<close>.\<close>

datatype reply = Success jsval | Failure string

text \<open>
  workers/jsonParser.worker.js, \<^verbatim>\<open>self.onmessage\<close>: the list of messages the handler posts
  for one incoming message.
\<close>

definition self_onmessage :: "decoder \<Rightarrow> jstext \<Rightarrow> reply list" where
  "self_onmessage JSON_parse d =
     (case JSON_parse d of
        Inr parsed \<Rightarrow> [Success parsed]
      | Inl message \<Rightarrow> [Failure message])"

text \<open>
  A worker instance as the page sees it: the messages posted to it and not yet handled,
  the replies it has posted and the page has not yet received, and whether
  \<^verbatim>\<open>terminate()\<close> has been called on it.
\<close>

record worker =
  w_inbox :: "jstext list"
  w_outbox :: "reply list"
  w_terminated :: bool

text \<open>
  The component's state (\<open>rawText\<close>, \<open>error\<close>), the worker instances it has created, in
  order of creation, and two traces: the values \<^verbatim>\<open>onParsed\<close> has been called with and the
  texts \<^verbatim>\<open>JSON.parse\<close> has been called on in the page itself.
\<close>

record jsoninput =
  rawText :: jstext
  error :: "string option"
  workers :: "worker list"
  onParsedCalls :: "jsval list"
  parseCalls :: "jstext list"

definition initial_input :: jsoninput where
  "initial_input =
     \<lparr> rawText = [], error = None, workers = [], onParsedCalls = [], parseCalls = [] \<rparr>"

text \<open>
  Every parent passes an \<^verbatim>\<open>onParsed\<close> that stores its argument
  (\<^verbatim>\<open>setExpenses\<close>, \<^verbatim>\<open>setFilterConfig\<close>, \<^verbatim>\<open>setInputData\<close>): the document the parent
  holds is the last value \<^verbatim>\<open>onParsed\<close> was called with, if there was a call.
\<close>

definition lastKnownGood :: "jsoninput \<Rightarrow> jsval option" where
  "lastKnownGood st = (if onParsedCalls st = [] then None else Some (last (onParsedCalls st)))"

definition parseJSON :: "decoder \<Rightarrow> jstext \<Rightarrow> jsoninput \<Rightarrow> jsoninput" where
  "parseJSON JSON_parse t st =
     (let st1 = st\<lparr>parseCalls := parseCalls st @ [t]\<rparr> in
      case JSON_parse t of
        Inr parsed \<Rightarrow> st1\<lparr>error := None, onParsedCalls := onParsedCalls st1 @ [parsed]\<rparr>
      | Inl message \<Rightarrow> st1\<lparr>error := Some message\<rparr>)"

definition new_worker :: "jstext \<Rightarrow> worker" where
  "new_worker t = \<lparr> w_inbox = [t], w_outbox = [], w_terminated = False \<rparr>"

definition parseWithWorker :: "decoder \<Rightarrow> jstext \<Rightarrow> jsoninput \<Rightarrow> jsoninput" where
  "parseWithWorker JSON_parse t st =
     (if length t > 100000 then st\<lparr>workers := workers st @ [new_worker t]\<rparr>
      else parseJSON JSON_parse t st)"

text \<open>The worker thread handles the oldest message posted to it.\<close>

definition worker_step :: "decoder \<Rightarrow> worker \<Rightarrow> worker" where
  "worker_step JSON_parse w =
     (if w_terminated w then w
      else case w_inbox w of
             [] \<Rightarrow> w
           | m # ms \<Rightarrow> w\<lparr>w_inbox := ms, w_outbox := w_outbox w @ self_onmessage JSON_parse m\<rparr>)"

definition run_worker :: "decoder \<Rightarrow> nat \<Rightarrow> jsoninput \<Rightarrow> jsoninput" where
  "run_worker JSON_parse i st =
     (if i < length (workers st)
      then st\<lparr>workers := (workers st)[i := worker_step JSON_parse (workers st ! i)]\<rparr>
      else st)"

text \<open>
  \<^verbatim>\<open>worker.onmessage\<close> of \<^verbatim>\<open>parseWithWorker\<close>, for the worker created \<open>i\<close>-th:
  \<^verbatim>\<open>terminate()\<close> first, then the reply is looked at.
\<close>

definition worker_onmessage :: "nat \<Rightarrow> reply \<Rightarrow> jsoninput \<Rightarrow> jsoninput" where
  "worker_onmessage i r st =
     (let st1 = st\<lparr>workers := (workers st)[i := (workers st ! i)\<lparr>w_terminated := True\<rparr>]\<rparr> in
      case r of
        Success d \<Rightarrow> st1\<lparr>error := None, onParsedCalls := onParsedCalls st1 @ [d]\<rparr>
      | Failure e \<Rightarrow> st1\<lparr>error := Some e\<rparr>)"

text \<open>
  The page receives the oldest undelivered reply of worker \<open>i\<close>. A terminated worker
  delivers nothing any more.
\<close>

definition deliver :: "nat \<Rightarrow> jsoninput \<Rightarrow> jsoninput" where
  "deliver i st =
     (if i < length (workers st) \<and> \<not> w_terminated (workers st ! i)
      then case w_outbox (workers st ! i) of
             [] \<Rightarrow> st
           | r # rs \<Rightarrow>
               worker_onmessage i r
                 (st\<lparr>workers := (workers st)[i := (workers st ! i)\<lparr>w_outbox := rs\<rparr>]\<rparr>)
      else st)"

text \<open>White space and line terminators, the code units \<^verbatim>\<open>String.prototype.trim\<close> strips.\<close>

definition js_whitespace :: "16 word \<Rightarrow> bool" where
  "js_whitespace c =
     (c \<in> set [0x9, 0xA, 0xB, 0xC, 0xD, 0x20, 0xA0, 0x1680, 0x2028, 0x2029, 0x202F, 0x205F,
               0x3000, 0xFEFF]
      \<or> (0x2000 \<le> c \<and> c \<le> 0x200A))"

definition trim :: "jstext \<Rightarrow> jstext" where
  "trim t = rev (dropWhile js_whitespace (rev (dropWhile js_whitespace t)))"

definition handleChange :: "jstext \<Rightarrow> jsoninput \<Rightarrow> jsoninput" where
  "handleChange val st = st\<lparr>rawText := val\<rparr>"

definition handleParse :: "decoder \<Rightarrow> jsoninput \<Rightarrow> jsoninput" where
  "handleParse JSON_parse st =
     (if trim (rawText st) \<noteq> [] then parseWithWorker JSON_parse (rawText st) st else st)"

text \<open>
  \<open>file\<close> is \<open>None\<close> when the picker was closed without a file, otherwise the text the
  reader hands to \<^verbatim>\<open>reader.onload\<close>.
\<close>

definition handleFileUpload :: "decoder \<Rightarrow> jstext option \<Rightarrow> jsoninput \<Rightarrow> jsoninput" where
  "handleFileUpload JSON_parse file st =
     (case file of
        None \<Rightarrow> st
      | Some t \<Rightarrow> parseWithWorker JSON_parse t (st\<lparr>rawText := t\<rparr>))"

text \<open>\<open>clip\<close> is \<open>None\<close> when \<^verbatim>\<open>navigator.clipboard.readText()\<close> rejects.\<close>

definition handlePaste :: "decoder \<Rightarrow> jstext option \<Rightarrow> jsoninput \<Rightarrow> jsoninput" where
  "handlePaste JSON_parse clip st =
     (case clip of
        Some t \<Rightarrow> parseWithWorker JSON_parse t (st\<lparr>rawText := t\<rparr>)
      | None \<Rightarrow> st\<lparr>error := Some ''Could not read clipboard''\<rparr>)"

text \<open>
  \<^verbatim>\<open>JSON.stringify(sampleData, null, 2)\<close> is the host's as well: the parameter
  \<open>JSON_stringify\<close>.
\<close>

definition handleLoadSample :: "(jsval \<Rightarrow> jstext) \<Rightarrow> jsval \<Rightarrow> jsoninput \<Rightarrow> jsoninput" where
  "handleLoadSample JSON_stringify sampleData st =
     (if truthy sampleData
      then st\<lparr>rawText := JSON_stringify sampleData,
              onParsedCalls := onParsedCalls st @ [sampleData],
              error := None\<rparr>
      else st)"

subsection \<open>The component driven by a timeline of events\<close>

text \<open>
  The props of the component that matter here: the host's \<^verbatim>\<open>JSON.parse\<close> and
  \<^verbatim>\<open>JSON.stringify\<close> it runs with, and \<^verbatim>\<open>sampleData\<close>.
\<close>

record props =
  host_parse :: decoder
  host_stringify :: "jsval \<Rightarrow> jstext"
  sample :: jsval

text \<open>
  What can happen to a mounted \<^verbatim>\<open>JsonInput\<close>: the user types (the textarea's
  \<^verbatim>\<open>onChange\<close>), clicks "Parse JSON", picks a file, clicks "Paste" or "Load Sample"; a
  worker thread gets to run; a worker's reply reaches the page; or time passes and
  nothing is done to the component (\<open>Tick\<close>).
\<close>

datatype event =
    Change jstext
  | ClickParse
  | Upload "jstext option"
  | Paste "jstext option"
  | LoadSample
  | WorkerRuns nat
  | WorkerReplies nat
  | Tick

fun handle :: "props \<Rightarrow> event \<Rightarrow> jsoninput \<Rightarrow> jsoninput" where
  "handle p (Change val) st = handleChange val st"
| "handle p ClickParse st = handleParse (host_parse p) st"
| "handle p (Upload file) st = handleFileUpload (host_parse p) file st"
| "handle p (Paste clip) st = handlePaste (host_parse p) clip st"
| "handle p LoadSample st = handleLoadSample (host_stringify p) (sample p) st"
| "handle p (WorkerRuns i) st = run_worker (host_parse p) i st"
| "handle p (WorkerReplies i) st = deliver i st"
| "handle p Tick st = st"

text \<open>
  The number of decodes started so far: calls of \<^verbatim>\<open>JSON.parse\<close> in the page plus
  workers created (each is posted its text on creation).
\<close>

definition decodes_started :: "jsoninput \<Rightarrow> nat" where
  "decodes_started st = length (parseCalls st) + length (workers st)"

text \<open>
  The mounted component with the hook of its line
  \<^verbatim>\<open>const debouncedText = useDebounce(rawText, 300)\<close>: the component's state, the value
  the hook returns, and the time at which the hook's pending timer is due, if one is
  pending. No handler and no part of the rendered output reads \<open>debouncedText\<close>:
  the handlers above work on the component's state alone.
\<close>

record mounted =
  m_input :: jsoninput
  debouncedText :: jstext
  debounceTimer :: "nat option"

definition mount :: mounted where
  "mount = \<lparr> m_input = initial_input, debouncedText = [], debounceTimer = None \<rparr>"

text \<open>
  Modelled from the spec: the hook \<^verbatim>\<open>useDebounce\<close> of hooks/useDebounce, which the
  component imports and which is not among the sources. A change of the value cancels
  the pending timer and schedules a new one, \<open>delay\<close> milliseconds later.
\<close>

definition useDebounce_schedule :: "nat \<Rightarrow> nat \<Rightarrow> mounted \<Rightarrow> mounted" where
  "useDebounce_schedule delay now m = m\<lparr>debounceTimer := Some (now + delay)\<rparr>"

text \<open>
  Modelled from the spec: the timer of \<^verbatim>\<open>useDebounce\<close> (hooks/useDebounce, not among the
  sources). When the quiet period is over, the debounced value becomes the value
  watched, here \<open>rawText\<close>.
\<close>

definition useDebounce_fire :: "nat \<Rightarrow> mounted \<Rightarrow> mounted" where
  "useDebounce_fire now m =
     (case debounceTimer m of
        None \<Rightarrow> m
      | Some due \<Rightarrow>
          if due \<le> now then m\<lparr>debouncedText := rawText (m_input m), debounceTimer := None\<rparr>
          else m)"

text \<open>
  One event at time \<open>now\<close> (milliseconds): a timer that is due fires first, the handler
  of the event runs on the component's state, and a change of \<open>rawText\<close> restarts the
  debounce with the component's delay of 300.
\<close>

definition step :: "props \<Rightarrow> nat \<times> event \<Rightarrow> mounted \<Rightarrow> mounted" where
  "step p x m =
     (let now = fst x;
          m1 = useDebounce_fire now m;
          st = handle p (snd x) (m_input m1);
          m2 = m1\<lparr>m_input := st\<rparr>
      in if rawText st \<noteq> rawText (m_input m1) then useDebounce_schedule 300 now m2 else m2)"

text \<open>A timeline is a list of events, each with the time at which it happens.\<close>

fun run :: "props \<Rightarrow> (nat \<times> event) list \<Rightarrow> mounted \<Rightarrow> mounted" where
  "run p [] m = m"
| "run p (x # xs) m = run p xs (step p x m)"

text \<open>
  Submitting a text and letting the background decoder, when one is created, run and
  reply: the new worker is the one at index \<open>length (workers st)\<close>.
\<close>

definition submit_and_settle :: "decoder \<Rightarrow> jstext \<Rightarrow> jsoninput \<Rightarrow> jsoninput" where
  "submit_and_settle JSON_parse t st =
     (if length t > 100000
      then deliver (length (workers st))
             (run_worker JSON_parse (length (workers st)) (parseWithWorker JSON_parse t st))
      else parseWithWorker JSON_parse t st)"

text \<open>
  A small decoder to run the model on: it skips leading spaces and knows the documents
  \<^verbatim>\<open>1\<close>, \<^verbatim>\<open>[]\<close> and \<^verbatim>\<open>null\<close>; every other text is malformed for it.
\<close>

definition sample_decoder :: decoder where
  "sample_decoder t =
     (let body = dropWhile (\<lambda>c. c = 0x20) t in
      if body = [0x31] then Inr (JNum 1)
      else if body = [0x5B, 0x5D] then Inr (JArr [])
      else if body = [0x6E, 0x75, 0x6C, 0x6C] then Inr JNull
      else Inl ''Unexpected token'')"

definition sample_props :: props where
  "sample_props =
     \<lparr> host_parse = sample_decoder, host_stringify = (\<lambda>v. [0x31]), sample = JNum 1 \<rparr>"


section \<open>Transport client (services/api)\<close>

text \<open>What the remote service answers: the HTTP status and the body.\<close>

record response =
  resp_status :: nat
  resp_data :: jsval

text \<open>
  What the network gives to one attempt: no response at all (connection failure,
  timeout), or a response. A transport is given by the outcome of each attempt, counted
  from 0.
\<close>

datatype net_outcome = NoResponse | Response response

type_synonym transport = "nat \<Rightarrow> net_outcome"

text \<open>
  The request configuration is an object that the error of a failed attempt refers to
  and that the interceptor writes \<^verbatim>\<open>_retryCount\<close> into: configurations live in a heap
  and are named by references. \<^verbatim>\<open>_retryCount\<close> is absent until the interceptor has
  set it.
\<close>

type_synonym ref = nat

record config =
  cfg_retryCount :: "nat option"

text \<open>
  The error axios rejects with: \<^verbatim>\<open>error.config\<close> and \<^verbatim>\<open>error.response\<close>, the latter
  absent when no response was received.
\<close>

record axios_error =
  err_config :: "ref option"
  err_response :: "response option"

text \<open>
  The state a request runs in: the heap of configurations, the number of network
  attempts made so far, and the delays (in milliseconds) waited for so far, in order.
\<close>

record net =
  heap :: "ref \<Rightarrow> config"
  calls :: nat
  slept :: "nat list"

text \<open>
  The instance is created without a \<^verbatim>\<open>validateStatus\<close>, so axios's default decides which
  responses resolve the promise: those with a 2xx status.
\<close>

definition validateStatus :: "nat \<Rightarrow> bool" where
  "validateStatus status = (200 \<le> status \<and> status < 300)"

text \<open>
  Attempt number \<open>n\<close> of the request whose configuration is \<open>r\<close>, as axios settles it:
  the response, or the error handed to the response interceptor.
\<close>

definition attempt :: "transport \<Rightarrow> ref \<Rightarrow> nat \<Rightarrow> axios_error + response" where
  "attempt t r n =
     (case t n of
        NoResponse \<Rightarrow> Inl \<lparr> err_config = Some r, err_response = None \<rparr>
      | Response rsp \<Rightarrow>
          if validateStatus (resp_status rsp) then Inr rsp
          else Inl \<lparr> err_config = Some r, err_response = Some rsp \<rparr>)"

text \<open>\<^verbatim>\<open>config._retryCount || 0\<close>\<close>

definition retry_count :: "config \<Rightarrow> nat" where
  "retry_count c = (case cfg_retryCount c of None \<Rightarrow> 0 | Some n \<Rightarrow> n)"

text \<open>
  \<open>api\<close> is the call \<^verbatim>\<open>api(config)\<close> of the axios instance: one network attempt, whose
  failure goes through \<open>onRejected\<close>, the interceptor registered with
  \<^verbatim>\<open>api.interceptors.response.use(null, ...)\<close>. The interceptor calls \<^verbatim>\<open>api(config)\<close>
  again for a retry, after the delay. axios builds the configuration of the new call
  from the one it is given, \<^verbatim>\<open>_retryCount\<close> included: the retry runs on the same
  reference.
\<close>

function api :: "transport \<Rightarrow> ref \<Rightarrow> net \<Rightarrow> (axios_error + response) \<times> net"
  and onRejected :: "transport \<Rightarrow> axios_error \<Rightarrow> net \<Rightarrow> (axios_error + response) \<times> net"
where
  "api t r s =
     (case attempt t r (calls s) of
        Inr rsp \<Rightarrow> (Inr rsp, s\<lparr>calls := calls s + 1\<rparr>)
      | Inl err \<Rightarrow> onRejected t err (s\<lparr>calls := calls s + 1\<rparr>))"
| "onRejected t err s =
     (case err_config err of
        None \<Rightarrow> (Inl err, s)
      | Some r \<Rightarrow>
          (let n = retry_count (heap s r) + 1;
               s1 = s\<lparr>heap := (heap s)(r := (heap s r)\<lparr>cfg_retryCount := Some n\<rparr>)\<rparr>
           in if n \<le> 3 \<and> (case err_response err of
                               None \<Rightarrow> True
                             | Some rsp \<Rightarrow> resp_status rsp \<ge> 500)
              then api t r (s1\<lparr>slept := slept s1 @ [1000 * n]\<rparr>)
              else (Inl err, s1)))"
  by pat_completeness auto
termination
  by (relation "measure (\<lambda>x. case x of
          Inl (t, r, s) \<Rightarrow> 2 * (4 - retry_count (heap s r)) + 2
        | Inr (t, e, s) \<Rightarrow> (case err_config e of
                               None \<Rightarrow> 0
                             | Some r \<Rightarrow> 2 * (4 - retry_count (heap s r)) + 1))")
     (auto simp: retry_count_def attempt_def split: net_outcome.splits if_splits)

declare api.simps [simp del] onRejected.simps [simp del]

text \<open>
  A request made by \<^verbatim>\<open>api.post\<close> or \<^verbatim>\<open>api.get\<close> starts with a configuration of its own
  that has no \<^verbatim>\<open>_retryCount\<close>. The request body plays no part in what follows.
\<close>

definition fresh_net :: net where
  "fresh_net = \<lparr> heap = (\<lambda>r. \<lparr> cfg_retryCount = None \<rparr>), calls = 0, slept = [] \<rparr>"

definition send :: "transport \<Rightarrow> (axios_error + response) \<times> net" where
  "send t = api t 0 fresh_net"

text \<open>
  The retry policy in the specification's words: an outcome is retried when it is a
  network-level failure or carries a status of 500 or more, and a request is retried
  after each of its first three attempts for as long as their outcomes are of that kind.
\<close>

fun retryable :: "net_outcome \<Rightarrow> bool" where
  "retryable NoResponse = True"
| "retryable (Response rsp) = (resp_status rsp \<ge> 500)"

definition retries :: "transport \<Rightarrow> nat" where
  "retries t = length (takeWhile retryable [t 0, t 1, t 2])"

text \<open>A transport that answers 500 to the first two attempts and 200 afterwards.\<close>

definition flaky :: transport where
  "flaky n = (if n < 2 then Response \<lparr> resp_status = 500, resp_data = JNull \<rparr>
              else Response \<lparr> resp_status = 200, resp_data = JArr [] \<rparr>)"

text \<open>The state of a request after \<open>k\<close> retries have been scheduled.\<close>

definition retried :: "nat \<Rightarrow> net" where
  "retried k = \<lparr> heap = (\<lambda>r. \<lparr> cfg_retryCount = None \<rparr>)
                         (0 := \<lparr> cfg_retryCount = (if k = 0 then None else Some k) \<rparr>),
                 calls = k, slept = map (\<lambda>n. 1000 * n) [1..<k + 1] \<rparr>"


section \<open>The asynchronous actions of the components\<close>

text \<open>
  What a \<^verbatim>\<open>catch (err)\<close> of a handler can receive: the error a request rejected with, or
  an exception thrown inside the \<^verbatim>\<open>try\<close> block itself.
\<close>

datatype caught = AxiosError axios_error | Thrown jsexn

text \<open>\<^verbatim>\<open>err.response?.data?.detail\<close>\<close>

definition error_detail :: "caught \<Rightarrow> jsval" where
  "error_detail err =
     (case err of
        AxiosError e \<Rightarrow>
          (case err_response e of
             None \<Rightarrow> JUndefined
           | Some rsp \<Rightarrow> get_opt (resp_data rsp) ''detail'')
      | Thrown x \<Rightarrow> JUndefined)"

text \<open>
  A toast is recorded by its kind and its message; a message built from a template
  literal is the list of its literal pieces and interpolated values.
\<close>

datatype part = Lit string | Val jsval

datatype toast = ToastSuccess "part list" | ToastError jsval

text \<open>
  The state the four actions work on: the store, the toasts shown so far, and the local
  state of each component (\<^verbatim>\<open>TransactionParser\<close>, \<^verbatim>\<open>TransactionValidator\<close>,
  \<^verbatim>\<open>TemporalFilter\<close>, \<^verbatim>\<open>ReturnsCalculator\<close>).
\<close>

record ui =
  ui_store :: store
  ui_toasts :: "toast list"
  parser_expenses :: jsval
  parser_result :: jsval
  validator_wage :: jsval
  validator_result :: jsval
  filter_config :: jsval
  filter_result :: jsval
  returns_input :: jsval
  returns_nps :: jsval
  returns_index :: jsval

definition initial_ui :: ui where
  "initial_ui =
     \<lparr> ui_store = initial_store, ui_toasts = [],
       parser_expenses = JNull, parser_result = JNull,
       validator_wage = JNum 50000, validator_result = JNull,
       filter_config = JNull, filter_result = JNull,
       returns_input = JNull, returns_nps = JNull, returns_index = JNull \<rparr>"

text \<open>
  Each handler is asynchronous: it runs up to its \<^verbatim>\<open>await\<close>, and runs on when the
  request has settled. The first part ends in one of three ways: the handler has
  returned without a request, the request is in flight, or an exception was thrown
  before the \<^verbatim>\<open>try\<close> block was entered (the state is then as it was).
\<close>

datatype started = Declined ui | Dispatched ui | Crashed jsexn

definition show_toast :: "toast \<Rightarrow> ui \<Rightarrow> ui" where
  "show_toast x u = u\<lparr>ui_toasts := ui_toasts u @ [x]\<rparr>"

definition in_store :: "(store \<Rightarrow> store) \<Rightarrow> ui \<Rightarrow> ui" where
  "in_store f u = u\<lparr>ui_store := f (ui_store u)\<rparr>"

text \<open>\<^verbatim>\<open>toast.error(err.response?.data?.detail || fallback)\<close>\<close>

definition toast_failure :: "string \<Rightarrow> caught \<Rightarrow> ui \<Rightarrow> ui" where
  "toast_failure fallback err u =
     show_toast (ToastError (js_or (error_detail err) (JStr fallback))) u"

subsection \<open>TransactionParser: handleSubmit\<close>

definition handleSubmit_dispatch :: "ui \<Rightarrow> started" where
  "handleSubmit_dispatch u =
     (if \<not> truthy (parser_expenses u) then Declined u
      else Dispatched (in_store (setLoading ''parse'' True) u))"

text \<open>
  The rest of the handler, from the settled request on: the \<^verbatim>\<open>try\<close> block's remainder
  or the \<^verbatim>\<open>catch\<close> block, and then the \<^verbatim>\<open>finally\<close> block, which is the outermost
  update.
\<close>

definition handleSubmit_settle :: "axios_error + response \<Rightarrow> ui \<Rightarrow> ui" where
  "handleSubmit_settle outcome u =
     in_store (setLoading ''parse'' False)
       (case outcome of
          Inl e \<Rightarrow> toast_failure ''Failed to parse'' (AxiosError e) u
        | Inr rsp \<Rightarrow>
            (let dat = resp_data rsp;
                 u1 = in_store (setTransactions dat) (u\<lparr>parser_result := dat\<rparr>)
             in case get_prop dat ''length'' of
                  Inl x \<Rightarrow> toast_failure ''Failed to parse'' (Thrown x) u1
                | Inr n \<Rightarrow>
                    show_toast (ToastSuccess [Lit ''Parsed '', Val n, Lit '' transactions''])
                      u1))"

definition handleSubmit :: "transport \<Rightarrow> ui \<Rightarrow> ui" where
  "handleSubmit t u =
     (case handleSubmit_dispatch u of
        Declined u1 \<Rightarrow> u1
      | Crashed x \<Rightarrow> u
      | Dispatched u1 \<Rightarrow> handleSubmit_settle (fst (send t)) u1)"

subsection \<open>TransactionValidator: handleValidate\<close>

definition handleValidate_dispatch :: "ui \<Rightarrow> started" where
  "handleValidate_dispatch u =
     (case get_prop (transactions (ui_store u)) ''length'' of
        Inl x \<Rightarrow> Crashed x
      | Inr n \<Rightarrow>
          if \<not> truthy n then Declined (show_toast (ToastError (JStr ''Parse expenses first'')) u)
          else Dispatched (in_store (setLoading ''validate'' True) u))"

definition handleValidate_settle :: "axios_error + response \<Rightarrow> ui \<Rightarrow> ui" where
  "handleValidate_settle outcome u =
     in_store (setLoading ''validate'' False)
       (case outcome of
          Inl e \<Rightarrow> toast_failure ''Validation failed'' (AxiosError e) u
        | Inr rsp \<Rightarrow>
            (let dat = resp_data rsp;
                 u1 = u\<lparr>validator_result := dat\<rparr>
             in case get_prop dat ''valid'' of
                  Inl x \<Rightarrow> toast_failure ''Validation failed'' (Thrown x) u1
                | Inr v \<Rightarrow>
                    (case get_prop dat ''invalid'' of
                       Inl x \<Rightarrow> toast_failure ''Validation failed'' (Thrown x) u1
                     | Inr w \<Rightarrow>
                         (let valid = js_or v (JArr []);
                              invalid = js_or w (JArr []);
                              u2 = in_store (setValidationResult valid invalid) u1
                          in show_toast
                               (ToastSuccess [Val (get_opt valid ''length''), Lit '' valid, '',
                                              Val (get_opt invalid ''length''), Lit '' invalid''])
                               u2))))"

definition handleValidate :: "transport \<Rightarrow> ui \<Rightarrow> ui" where
  "handleValidate t u =
     (case handleValidate_dispatch u of
        Declined u1 \<Rightarrow> u1
      | Crashed x \<Rightarrow> u
      | Dispatched u1 \<Rightarrow> handleValidate_settle (fst (send t)) u1)"

subsection \<open>TemporalFilter: handleFilter\<close>

definition handleFilter_dispatch :: "ui \<Rightarrow> started" where
  "handleFilter_dispatch u =
     (case get_prop (transactions (ui_store u)) ''length'' of
        Inl x \<Rightarrow> Crashed x
      | Inr n \<Rightarrow>
          if \<not> truthy n then Declined (show_toast (ToastError (JStr ''Parse expenses first'')) u)
          else if \<not> truthy (filter_config u)
          then Declined (show_toast (ToastError (JStr ''Enter q/p/k configuration'')) u)
          else Dispatched (in_store (setLoading ''filter'' True) u))"

definition handleFilter_settle :: "axios_error + response \<Rightarrow> ui \<Rightarrow> ui" where
  "handleFilter_settle outcome u =
     in_store (setLoading ''filter'' False)
       (case outcome of
          Inl e \<Rightarrow> toast_failure ''Filter failed'' (AxiosError e) u
        | Inr rsp \<Rightarrow>
            (let dat = resp_data rsp;
                 u1 = in_store (setFilterResult dat) (u\<lparr>filter_result := dat\<rparr>)
             in show_toast (ToastSuccess [Lit ''Filters applied successfully'']) u1))"

definition handleFilter :: "transport \<Rightarrow> ui \<Rightarrow> ui" where
  "handleFilter t u =
     (case handleFilter_dispatch u of
        Declined u1 \<Rightarrow> u1
      | Crashed x \<Rightarrow> u
      | Dispatched u1 \<Rightarrow> handleFilter_settle (fst (send t)) u1)"

subsection \<open>ReturnsCalculator: handleCalculate\<close>

text \<open>
  \<^verbatim>\<open>Promise.all\<close> of the two requests: both responses, or the error of the request that
  rejects first; \<open>second_first\<close> says that the second one does when both reject.
\<close>

definition promise_all ::
  "bool \<Rightarrow> axios_error + response \<Rightarrow> axios_error + response
     \<Rightarrow> axios_error + response \<times> response" where
  "promise_all second_first a b =
     (case a of
        Inl e1 \<Rightarrow> (case b of
                     Inl e2 \<Rightarrow> Inl (if second_first then e2 else e1)
                   | Inr y \<Rightarrow> Inl e1)
      | Inr x \<Rightarrow> (case b of
                    Inl e2 \<Rightarrow> Inl e2
                  | Inr y \<Rightarrow> Inr (x, y)))"

definition handleCalculate_dispatch :: "ui \<Rightarrow> started" where
  "handleCalculate_dispatch u =
     (if \<not> truthy (returns_input u)
      then Declined (show_toast (ToastError (JStr ''Enter calculation input first'')) u)
      else Dispatched (in_store (setLoading ''returns'' True) u))"

definition handleCalculate_settle :: "axios_error + response \<times> response \<Rightarrow> ui \<Rightarrow> ui" where
  "handleCalculate_settle outcome u =
     in_store (setLoading ''returns'' False)
       (case outcome of
          Inl e \<Rightarrow> toast_failure ''Calculation failed'' (AxiosError e) u
        | Inr (npsRes, indexRes) \<Rightarrow>
            show_toast (ToastSuccess [Lit ''Returns calculated''])
              (u\<lparr>returns_nps := resp_data npsRes, returns_index := resp_data indexRes\<rparr>))"

definition handleCalculate :: "transport \<Rightarrow> transport \<Rightarrow> bool \<Rightarrow> ui \<Rightarrow> ui" where
  "handleCalculate t_nps t_index second_first u =
     (case handleCalculate_dispatch u of
        Declined u1 \<Rightarrow> u1
      | Crashed x \<Rightarrow> u
      | Dispatched u1 \<Rightarrow>
          handleCalculate_settle
            (promise_all second_first (fst (send t_nps)) (fst (send t_index))) u1)"


subsection \<open>States to run the handlers on\<close>

text \<open>States in which each handler's guards pass.\<close>

definition ready_parse :: ui where
  "ready_parse = initial_ui\<lparr>parser_expenses := JArr [JNum 250]\<rparr>"

definition ready_validate :: ui where
  "ready_validate = initial_ui\<lparr>ui_store := setTransactions (JArr [JNull]) initial_store\<rparr>"

definition ready_filter :: ui where
  "ready_filter = ready_validate\<lparr>filter_config := JObj []\<rparr>"

definition ready_returns :: ui where
  "ready_returns = initial_ui\<lparr>returns_input := JObj []\<rparr>"


section \<open>Store: frame of setLoading\<close>

text \<open>
  C10. For every store state, key \<open>k\<close> and flag \<open>v\<close>, \<open>setLoading k v\<close> gives a state
  whose loading map is the old one with the entry for \<open>k\<close> set to \<open>v\<close>, every other
  key of the map keeping its value, and every other slice of the store as it was.
\<close>

theorem setLoading_frame:
  "loading (setLoading k v s) = (loading s)(k \<mapsto> v)
   \<and> loading (setLoading k v s) k = Some v
   \<and> (\<forall>k'. k' \<noteq> k \<longrightarrow> loading (setLoading k v s) k' = loading s k')
   \<and> transactions (setLoading k v s) = transactions s
   \<and> validTransactions (setLoading k v s) = validTransactions s
   \<and> invalidTransactions (setLoading k v s) = invalidTransactions s
   \<and> filterResult (setLoading k v s) = filterResult s
   \<and> npsResult (setLoading k v s) = npsResult s
   \<and> indexResult (setLoading k v s) = indexResult s
   \<and> activeSection (setLoading k v s) = activeSection s
   \<and> performanceMetrics (setLoading k v s) = performanceMetrics s"
  by (simp add: setLoading_def zustand_set_def zustand_merge_def no_patch_def pick_def)

theorem setLoading_frame_witness:
  "loading (setLoading ''parse'' True (setLoading ''filter'' False initial_store)) ''filter''
     = Some False
   \<and> loading (setLoading ''parse'' True (setLoading ''filter'' False initial_store)) ''parse''
     = Some True
   \<and> transactions (setLoading ''parse'' True (setLoading ''filter'' False initial_store))
     = JArr []"
  using setLoading_frame [of "''parse''" True "setLoading ''filter'' False initial_store"]
        setLoading_frame [of "''filter''" False initial_store]
  by (simp add: initial_store_def)


section \<open>Windowed renderer: empty state\<close>

text \<open>
  C9. For a row collection of zero rows the component returns the single
  "No data to display" placeholder: no header, no list and no row-count footer.
\<close>

theorem VirtualTable_empty:
  "VirtualTable (Some []) columns height itemSize = NoData ''No data to display''"
  by (simp add: VirtualTable_def)

section \<open>Ingestion: size policy\<close>

text \<open>
  C1. A text of at most 100000 code units is decoded in the page, within the call:
  \<^verbatim>\<open>JSON.parse\<close> is called on it once, no worker is created, and either \<^verbatim>\<open>onParsed\<close>
  receives the value \<^verbatim>\<open>JSON.parse\<close> returns, or the error is set to the message of what
  it throws. A longer text is not decoded in the page: a new worker is created, live, and
  posted the text (its inbox holds exactly that text and it has replied nothing yet), and
  neither the error nor \<^verbatim>\<open>onParsed\<close> is touched by the call.
\<close>

theorem parseWithWorker_size_policy:
  "(length t \<le> 100000 \<longrightarrow>
      parseWithWorker jp t st = parseJSON jp t st
      \<and> workers (parseWithWorker jp t st) = workers st
      \<and> parseCalls (parseWithWorker jp t st) = parseCalls st @ [t]
      \<and> (case jp t of
            Inr v \<Rightarrow> onParsedCalls (parseWithWorker jp t st) = onParsedCalls st @ [v]
                      \<and> error (parseWithWorker jp t st) = None
          | Inl m \<Rightarrow> onParsedCalls (parseWithWorker jp t st) = onParsedCalls st
                      \<and> error (parseWithWorker jp t st) = Some m))
   \<and> (length t > 100000 \<longrightarrow>
      workers (parseWithWorker jp t st) = workers st @ [new_worker t]
      \<and> workers (parseWithWorker jp t st)
          = workers st @ [\<lparr> w_inbox = [t], w_outbox = [], w_terminated = False \<rparr>]
      \<and> w_inbox (last (workers (parseWithWorker jp t st))) = [t]
      \<and> \<not> w_terminated (last (workers (parseWithWorker jp t st)))
      \<and> parseCalls (parseWithWorker jp t st) = parseCalls st
      \<and> onParsedCalls (parseWithWorker jp t st) = onParsedCalls st
      \<and> error (parseWithWorker jp t st) = error st)"
  by (simp add: parseWithWorker_def parseJSON_def new_worker_def Let_def split: sum.splits)

lemma sample_decoder_one: "sample_decoder [0x31] = Inr (JNum 1)"
  by (simp add: sample_decoder_def)

lemma sample_decoder_spaces: "sample_decoder (replicate n 0x20) = Inl ''Unexpected token''"
  by (simp add: sample_decoder_def)

theorem parseWithWorker_size_policy_witness:
  "onParsedCalls (parseWithWorker sample_decoder [0x31] initial_input) = [JNum 1]
   \<and> workers (parseWithWorker sample_decoder [0x31] initial_input) = []
   \<and> workers (parseWithWorker sample_decoder (replicate 100001 0x20) initial_input)
       = [\<lparr> w_inbox = [replicate 100001 0x20], w_outbox = [], w_terminated = False \<rparr>]
   \<and> w_inbox (last (workers (parseWithWorker sample_decoder (replicate 100001 0x20)
                                 initial_input)))
       = [replicate 100001 0x20]
   \<and> parseCalls (parseWithWorker sample_decoder (replicate 100001 0x20) initial_input) = []"
  using parseWithWorker_size_policy [of "[0x31]" sample_decoder initial_input]
        parseWithWorker_size_policy [of "replicate 100001 0x20" sample_decoder initial_input]
  by (simp add: parseWithWorker_def parseJSON_def new_worker_def sample_decoder_one
        initial_input_def)


section \<open>Ingestion: failed decodes and the background decoder\<close>

lemma self_onmessage_Inl: "jp t = Inl m \<Longrightarrow> self_onmessage jp t = [Failure m]"
  by (simp add: self_onmessage_def)

lemma dispatched_worker_replies:
  "length t > 100000 \<Longrightarrow>
   run_worker jp (length (workers st)) (parseWithWorker jp t st)
     = st\<lparr>workers := workers st @
            [\<lparr> w_inbox = [], w_outbox = self_onmessage jp t, w_terminated = False \<rparr>]\<rparr>"
  by (simp add: run_worker_def parseWithWorker_def worker_step_def new_worker_def)

lemma deliver_last:
  "deliver (length ws) (st\<lparr>workers := ws @ [\<lparr> w_inbox = ib, w_outbox = r # rs, w_terminated = False \<rparr>]\<rparr>)
     = (let st1 = st\<lparr>workers := ws @ [\<lparr> w_inbox = ib, w_outbox = rs, w_terminated = True \<rparr>]\<rparr> in
        case r of Success d \<Rightarrow> st1\<lparr>error := None, onParsedCalls := onParsedCalls st @ [d]\<rparr>
                | Failure e \<Rightarrow> st1\<lparr>error := Some e\<rparr>)"
  by (simp add: deliver_def worker_onmessage_def Let_def split: reply.splits)

text \<open>
  C4. When the decoder rejects the text with message \<open>m\<close>, the decode, in the page or in
  a background decoder that runs and replies, ends with the error set to \<open>m\<close>;
  \<^verbatim>\<open>onParsed\<close> is not called, so the document accepted last, if any, is unchanged.
\<close>

theorem failed_decode_keeps_last_known_good:
  assumes "jp t = Inl m"
  shows "error (submit_and_settle jp t st) = Some m
         \<and> onParsedCalls (submit_and_settle jp t st) = onParsedCalls st
         \<and> lastKnownGood (submit_and_settle jp t st) = lastKnownGood st"
proof (cases "length t > 100000")
  case True
  then have "submit_and_settle jp t st
      = deliver (length (workers st))
          (st\<lparr>workers := workers st @
             [\<lparr> w_inbox = [], w_outbox = [Failure m], w_terminated = False \<rparr>]\<rparr>)"
    using assms by (simp add: submit_and_settle_def dispatched_worker_replies self_onmessage_Inl)
  then show ?thesis
    by (simp add: deliver_last lastKnownGood_def)
next
  case False
  then show ?thesis
    using assms
    by (simp add: submit_and_settle_def parseWithWorker_def parseJSON_def lastKnownGood_def)
qed

theorem failed_decode_keeps_last_known_good_witness:
  "sample_decoder (replicate 100001 0x20) = Inl ''Unexpected token''
   \<and> lastKnownGood (parseJSON sample_decoder [0x31] initial_input) = Some (JNum 1)
   \<and> error (submit_and_settle sample_decoder (replicate 100001 0x20)
              (parseJSON sample_decoder [0x31] initial_input)) = Some ''Unexpected token''
   \<and> lastKnownGood (submit_and_settle sample_decoder (replicate 100001 0x20)
              (parseJSON sample_decoder [0x31] initial_input)) = Some (JNum 1)"
  using failed_decode_keeps_last_known_good
          [of sample_decoder "replicate 100001 0x20" "''Unexpected token''"
              "parseJSON sample_decoder [0x31] initial_input"]
  by (simp add: sample_decoder_spaces parseJSON_def sample_decoder_one lastKnownGood_def
        initial_input_def)

text \<open>
  C5. For every text the background decoder posts exactly one reply: \<open>Success\<close> with the
  decoded value, or \<open>Failure\<close> with the message of the exception, which is caught
  inside the worker. The page terminates the worker upon its reply, successful or not;
  a terminated worker runs and delivers nothing further. Each large decode creates a
  new worker, posted that one text, and leaves the workers that exist alone.
\<close>

theorem background_decoder_one_shot:
  "self_onmessage jp d = [case jp d of Inr v \<Rightarrow> Success v | Inl m \<Rightarrow> Failure m]
   \<and> (i < length (workers st) \<and> \<not> w_terminated (workers st ! i)
        \<and> w_outbox (workers st ! i) = r # rs
      \<longrightarrow> w_terminated (workers (deliver i st) ! i))
   \<and> (i < length (workers st) \<and> w_terminated (workers st ! i)
      \<longrightarrow> deliver i st = st \<and> run_worker jp i st = st)
   \<and> (length t > 100000 \<longrightarrow>
        workers (parseWithWorker jp t st) = workers st @ [new_worker t]
        \<and> w_inbox (new_worker t) = [t] \<and> w_outbox (new_worker t) = []
        \<and> \<not> w_terminated (new_worker t)
        \<and> workers (run_worker jp (length (workers st)) (parseWithWorker jp t st))
            = workers st @ [\<lparr> w_inbox = [], w_outbox = self_onmessage jp t,
                               w_terminated = False \<rparr>]
        \<and> workers (submit_and_settle jp t st)
            = workers st @ [\<lparr> w_inbox = [], w_outbox = [], w_terminated = True \<rparr>])"
proof -
  have one: "self_onmessage jp d = [case jp d of Inr v \<Rightarrow> Success v | Inl m \<Rightarrow> Failure m]" for d
    by (simp add: self_onmessage_def split: sum.splits)
  have down: "i < length (workers st) \<and> \<not> w_terminated (workers st ! i)
        \<and> w_outbox (workers st ! i) = r # rs
      \<longrightarrow> w_terminated (workers (deliver i st) ! i)"
    by (simp add: deliver_def worker_onmessage_def Let_def split: reply.splits)
  have dead: "i < length (workers st) \<and> w_terminated (workers st ! i)
      \<longrightarrow> deliver i st = st \<and> run_worker jp i st = st"
    by (simp add: deliver_def run_worker_def worker_step_def)
  have fresh: "length t > 100000 \<longrightarrow>
        workers (parseWithWorker jp t st) = workers st @ [new_worker t]
        \<and> w_inbox (new_worker t) = [t] \<and> w_outbox (new_worker t) = []
        \<and> \<not> w_terminated (new_worker t)"
    by (simp add: parseWithWorker_def new_worker_def)
  have ran: "length t > 100000 \<longrightarrow>
        workers (run_worker jp (length (workers st)) (parseWithWorker jp t st))
            = workers st @ [\<lparr> w_inbox = [], w_outbox = self_onmessage jp t,
                               w_terminated = False \<rparr>]"
    by (simp add: dispatched_worker_replies)
  have settled: "length t > 100000 \<longrightarrow>
        workers (submit_and_settle jp t st)
            = workers st @ [\<lparr> w_inbox = [], w_outbox = [], w_terminated = True \<rparr>]"
    by (simp add: submit_and_settle_def dispatched_worker_replies one deliver_last
          split: sum.splits)
  from one down dead fresh ran settled show ?thesis by blast
qed

theorem background_decoder_one_shot_witness:
  "self_onmessage sample_decoder [0x31] = [Success (JNum 1)]
   \<and> self_onmessage sample_decoder [0x32] = [Failure ''Unexpected token'']
   \<and> workers (submit_and_settle sample_decoder (replicate 100001 0x20) initial_input)
       = [\<lparr> w_inbox = [], w_outbox = [], w_terminated = True \<rparr>]
   \<and> deliver 0 (submit_and_settle sample_decoder (replicate 100001 0x20) initial_input)
       = submit_and_settle sample_decoder (replicate 100001 0x20) initial_input"
proof -
  let ?t = "replicate 100001 (0x20 :: 16 word)"
  let ?st = "submit_and_settle sample_decoder ?t initial_input"
  have big: "length ?t > 100000" by simp
  have ws: "workers ?st = [\<lparr> w_inbox = [], w_outbox = [], w_terminated = True \<rparr>]"
    using background_decoder_one_shot [of sample_decoder "[0x31]" 0 initial_input _ _ ?t] big
    by (simp add: initial_input_def)
  have "deliver 0 ?st = ?st"
    using background_decoder_one_shot [of sample_decoder "[0x31]" 0 ?st] ws by simp
  moreover have "self_onmessage sample_decoder [0x31] = [Success (JNum 1)]"
    using background_decoder_one_shot [of sample_decoder "[0x31]"]
    by (simp add: sample_decoder_def)
  moreover have "self_onmessage sample_decoder [0x32] = [Failure ''Unexpected token'']"
    using background_decoder_one_shot [of sample_decoder "[0x32]"]
    by (simp add: sample_decoder_def)
  ultimately show ?thesis using ws by simp
qed


section \<open>Ingestion: typed text and the debounce\<close>

text \<open>
  C6 says that typed changes are coalesced over a quiet window of 300 ms and then
  decoded. The code at a burst of typing followed by quiet: \<^verbatim>\<open>[\<close> is typed at 0 ms,
  \<^verbatim>\<open>[]\<close> at 50 ms, and nothing is done until 1000 ms. The debounced text has then become
  \<^verbatim>\<open>[]\<close>, a document the decoder accepts, and yet no decode has been started:
  \<^verbatim>\<open>JSON.parse\<close> was not called, no worker was created, \<^verbatim>\<open>onParsed\<close> was not called and
  no error is shown. The debounced value is there and nothing decodes it.
\<close>

theorem typed_text_is_never_decoded:
  "debouncedText (run sample_props [(0, Change [0x5B]), (50, Change [0x5B, 0x5D]), (1000, Tick)]
                    mount) = [0x5B, 0x5D]
   \<and> debounceTimer (run sample_props [(0, Change [0x5B]), (50, Change [0x5B, 0x5D]), (1000, Tick)]
                    mount) = None
   \<and> sample_decoder [0x5B, 0x5D] = Inr (JArr [])
   \<and> m_input (run sample_props [(0, Change [0x5B]), (50, Change [0x5B, 0x5D]), (1000, Tick)]
                 mount)
       = initial_input\<lparr>rawText := [0x5B, 0x5D]\<rparr>
   \<and> decodes_started (m_input (run sample_props
         [(0, Change [0x5B]), (50, Change [0x5B, 0x5D]), (1000, Tick)] mount)) = 0
   \<and> onParsedCalls (m_input (run sample_props
         [(0, Change [0x5B]), (50, Change [0x5B, 0x5D]), (1000, Tick)] mount)) = []
   \<and> error (m_input (run sample_props
         [(0, Change [0x5B]), (50, Change [0x5B, 0x5D]), (1000, Tick)] mount)) = None"
proof -
  have r: "run sample_props [(0, Change [0x5B]), (50, Change [0x5B, 0x5D]), (1000, Tick)] mount
        = \<lparr> m_input = initial_input\<lparr>rawText := [0x5B, 0x5D]\<rparr>,
            debouncedText = [0x5B, 0x5D], debounceTimer = None \<rparr>"
    by (simp add: step_def mount_def useDebounce_fire_def useDebounce_schedule_def
          handleChange_def initial_input_def Let_def)
  have d: "sample_decoder [0x5B, 0x5D] = Inr (JArr [])"
    by (simp add: sample_decoder_def)
  show ?thesis
    unfolding r using d by (simp add: decodes_started_def initial_input_def)
qed


section \<open>Transport: retry with backoff\<close>

lemma attempt_retryable:
  "retryable (t n) \<Longrightarrow>
   \<exists>e. attempt t r n = Inl e \<and> err_config e = Some r
       \<and> (case err_response e of None \<Rightarrow> True | Some rsp \<Rightarrow> resp_status rsp \<ge> 500)"
  by (cases "t n") (auto simp: attempt_def validateStatus_def)

lemma attempt_not_retryable:
  "\<not> retryable (t n) \<Longrightarrow>
   (\<exists>rsp. attempt t r n = Inr rsp)
   \<or> (\<exists>e. attempt t r n = Inl e \<and> err_config e = Some r
         \<and> \<not> (case err_response e of None \<Rightarrow> True | Some rsp \<Rightarrow> resp_status rsp \<ge> 500))"
  by (cases "t n") (auto simp: attempt_def)

lemma api_retry:
  assumes "retryable (t (calls s))" and "retry_count (heap s r) < 3"
  shows "api t r s =
         api t r (s\<lparr>calls := calls s + 1,
                    heap := (heap s)(r := (heap s r)\<lparr>cfg_retryCount :=
                                Some (retry_count (heap s r) + 1)\<rparr>),
                    slept := slept s @ [1000 * (retry_count (heap s r) + 1)]\<rparr>)"
proof -
  from attempt_retryable [of t "calls s" r] assms(1) obtain e where
    e: "attempt t r (calls s) = Inl e" "err_config e = Some r"
       "case err_response e of None \<Rightarrow> True | Some rsp \<Rightarrow> resp_status rsp \<ge> 500"
    by blast
  have "api t r s = onRejected t e (s\<lparr>calls := calls s + 1\<rparr>)"
    by (subst api.simps) (simp add: e)
  also have "\<dots> = api t r (s\<lparr>calls := calls s + 1,
                    heap := (heap s)(r := (heap s r)\<lparr>cfg_retryCount :=
                                Some (retry_count (heap s r) + 1)\<rparr>),
                    slept := slept s @ [1000 * (retry_count (heap s r) + 1)]\<rparr>)"
    using e assms(2) by (subst onRejected.simps) (simp add: Let_def)
  finally show ?thesis .
qed

lemma api_stop:
  assumes "\<not> retryable (t (calls s)) \<or> 3 \<le> retry_count (heap s r)"
  shows "fst (api t r s) = attempt t r (calls s)
         \<and> calls (snd (api t r s)) = calls s + 1
         \<and> slept (snd (api t r s)) = slept s"
proof (cases "attempt t r (calls s)")
  case (Inr rsp)
  then show ?thesis by (subst (1 2 3) api.simps) simp
next
  case (Inl e)
  have cfg: "err_config e = Some r"
    using Inl by (auto simp: attempt_def split: net_outcome.splits if_splits)
  have stop: "\<not> (retry_count (heap s r) + 1 \<le> 3
                \<and> (case err_response e of None \<Rightarrow> True | Some rsp \<Rightarrow> resp_status rsp \<ge> 500))"
  proof (cases "retryable (t (calls s))")
    case True
    with assms show ?thesis by simp
  next
    case False
    from attempt_not_retryable [of t "calls s" r] False Inl show ?thesis by auto
  qed
  have "api t r s = onRejected t e (s\<lparr>calls := calls s + 1\<rparr>)"
    by (subst api.simps) (simp add: Inl)
  also have "\<dots> = (Inl e, s\<lparr>calls := calls s + 1,
                          heap := (heap s)(r := (heap s r)\<lparr>cfg_retryCount :=
                                Some (retry_count (heap s r) + 1)\<rparr>)\<rparr>)"
    using stop cfg by (subst onRejected.simps) (auto simp: Let_def)
  finally show ?thesis by (simp add: Inl)
qed

lemma retried_0: "fresh_net = retried 0"
  by (simp add: fresh_net_def retried_def fun_eq_iff)

lemma retried_fields:
  "calls (retried k) = k" "slept (retried k) = map (\<lambda>n. 1000 * n) [1..<k + 1]"
  "retry_count (heap (retried k) 0) = k"
  by (simp_all add: retried_def retry_count_def)

lemma api_retried_step:
  "retryable (t k) \<Longrightarrow> k < 3 \<Longrightarrow> api t 0 (retried k) = api t 0 (retried (k + 1))"
proof -
  assume a: "retryable (t k)" "k < 3"
  have "api t 0 (retried k) =
         api t 0 ((retried k)\<lparr>calls := calls (retried k) + 1,
                    heap := (heap (retried k))(0 := (heap (retried k) 0)\<lparr>cfg_retryCount :=
                                Some (retry_count (heap (retried k) 0) + 1)\<rparr>),
                    slept := slept (retried k) @ [1000 * (retry_count (heap (retried k) 0) + 1)]\<rparr>)"
    using a by (intro api_retry) (simp_all add: retried_fields)
  also have "(retried k)\<lparr>calls := calls (retried k) + 1,
                    heap := (heap (retried k))(0 := (heap (retried k) 0)\<lparr>cfg_retryCount :=
                                Some (retry_count (heap (retried k) 0) + 1)\<rparr>),
                    slept := slept (retried k) @ [1000 * (retry_count (heap (retried k) 0) + 1)]\<rparr>
             = retried (k + 1)"
    by (simp add: retried_def retry_count_def fun_eq_iff)
  finally show ?thesis .
qed

lemma retries_cases:
  "(retries t = 0 \<and> \<not> retryable (t 0))
   \<or> (retries t = 1 \<and> retryable (t 0) \<and> \<not> retryable (t 1))
   \<or> (retries t = 2 \<and> retryable (t 0) \<and> retryable (t 1) \<and> \<not> retryable (t 2))
   \<or> (retries t = 3 \<and> retryable (t 0) \<and> retryable (t 1) \<and> retryable (t 2))"
  by (auto simp: retries_def)

lemma send_eq:
  "send t = api t 0 (retried (retries t))"
proof -
  have 0: "send t = api t 0 (retried 0)" by (simp add: send_def retried_0)
  have s1: "retryable (t 0) \<Longrightarrow> api t 0 (retried 0) = api t 0 (retried 1)"
    using api_retried_step [of t 0] by simp
  have s2: "retryable (t 1) \<Longrightarrow> api t 0 (retried 1) = api t 0 (retried 2)"
    using api_retried_step [of t 1] by (simp add: numeral_2_eq_2)
  have s3: "retryable (t 2) \<Longrightarrow> api t 0 (retried 2) = api t 0 (retried 3)"
    using api_retried_step [of t 2] by (simp add: numeral_3_eq_3)
  from retries_cases [of t] show ?thesis
    using 0 s1 s2 s3 by (elim disjE conjE) simp_all
qed

lemma retries_stop: "\<not> retryable (t (retries t)) \<or> 3 \<le> retries t"
  using retries_cases [of t] by auto

lemma send_outcome:
  "fst (send t) = attempt t 0 (retries t)
   \<and> calls (snd (send t)) = retries t + 1
   \<and> slept (snd (send t)) = map (\<lambda>n. 1000 * n) [1..<retries t + 1]"
  using api_stop [of t "retried (retries t)" 0] retries_stop [of t]
  by (simp add: send_eq retried_fields)




text \<open>
  C8. When all four attempts fail in a way that is retried, the request rejects with the
  very error axios raised for the last attempt: the same reference to the configuration
  and the same response of the service (or none), not a wrapper around it.
\<close>

theorem exhausted_retries_reject_with_the_error:
  assumes "retryable (t 0)" "retryable (t 1)" "retryable (t 2)" "retryable (t 3)"
  shows "fst (send t) = attempt t 0 3
         \<and> fst (send t) = Inl \<lparr> err_config = Some 0,
                                 err_response = (case t 3 of NoResponse \<Rightarrow> None
                                                 | Response rsp \<Rightarrow> Some rsp) \<rparr>"
proof -
  have "retries t = 3" using assms retries_cases [of t] by auto
  then have "fst (send t) = attempt t 0 3" using send_outcome [of t] by simp
  moreover have "attempt t 0 3 = Inl \<lparr> err_config = Some 0,
                                 err_response = (case t 3 of NoResponse \<Rightarrow> None
                                                 | Response rsp \<Rightarrow> Some rsp) \<rparr>"
    using assms(4) by (cases "t 3") (auto simp: attempt_def validateStatus_def)
  ultimately show ?thesis by simp
qed

theorem exhausted_retries_reject_with_the_error_witness:
  "retryable (Response \<lparr> resp_status = 503, resp_data = JStr ''busy'' \<rparr>)
   \<and> fst (send (\<lambda>n. Response \<lparr> resp_status = 503, resp_data = JStr ''busy'' \<rparr>))
       = Inl \<lparr> err_config = Some 0,
               err_response = Some \<lparr> resp_status = 503, resp_data = JStr ''busy'' \<rparr> \<rparr>"
  using exhausted_retries_reject_with_the_error
          [of "\<lambda>n. Response \<lparr> resp_status = 503, resp_data = JStr ''busy'' \<rparr>"]
  by (simp add: attempt_def validateStatus_def)


section \<open>Actions: release of the loading flag\<close>

lemma loading_in_store_setLoading:
  "loading (ui_store (in_store (setLoading k v) u)) k = Some v"
  by (simp add: in_store_def setLoading_def zustand_set_def zustand_merge_def no_patch_def
        pick_def)

text \<open>
  C7. For each of the four operations (parse, validate, filter, returns): the handler
  dispatches its request whenever its guards pass (there is input to send; for validate
  and filter the store holds transactions; for filter a configuration was entered), and
  the state it dispatches in is the state with the operation's loading flag set to true;
  and when the request has settled, whatever the outcome (a response, or the error the
  transport rejects with, also after its retries are exhausted, or an exception thrown
  while the response is handled), the flag is false.
\<close>

theorem loading_flag_released:
  "(truthy (parser_expenses u) \<longrightarrow>
      handleSubmit_dispatch u = Dispatched (in_store (setLoading ''parse'' True) u))
   \<and> (handleSubmit_dispatch u = Dispatched u1 \<longrightarrow>
      loading (ui_store u1) ''parse'' = Some True
      \<and> loading (ui_store (handleSubmit t u)) ''parse'' = Some False)
   \<and> loading (ui_store (handleSubmit_settle out u')) ''parse'' = Some False
   \<and> (get_prop (transactions (ui_store u)) ''length'' = Inr n \<and> truthy n \<longrightarrow>
      handleValidate_dispatch u = Dispatched (in_store (setLoading ''validate'' True) u))
   \<and> (handleValidate_dispatch u = Dispatched u1 \<longrightarrow>
      loading (ui_store u1) ''validate'' = Some True
      \<and> loading (ui_store (handleValidate t u)) ''validate'' = Some False)
   \<and> loading (ui_store (handleValidate_settle out u')) ''validate'' = Some False
   \<and> (get_prop (transactions (ui_store u)) ''length'' = Inr n \<and> truthy n
        \<and> truthy (filter_config u) \<longrightarrow>
      handleFilter_dispatch u = Dispatched (in_store (setLoading ''filter'' True) u))
   \<and> (handleFilter_dispatch u = Dispatched u1 \<longrightarrow>
      loading (ui_store u1) ''filter'' = Some True
      \<and> loading (ui_store (handleFilter t u)) ''filter'' = Some False)
   \<and> loading (ui_store (handleFilter_settle out u')) ''filter'' = Some False
   \<and> (truthy (returns_input u) \<longrightarrow>
      handleCalculate_dispatch u = Dispatched (in_store (setLoading ''returns'' True) u))
   \<and> (handleCalculate_dispatch u = Dispatched u1 \<longrightarrow>
      loading (ui_store u1) ''returns'' = Some True
      \<and> loading (ui_store (handleCalculate t t' b u)) ''returns'' = Some False)
   \<and> loading (ui_store (handleCalculate_settle out2 u')) ''returns'' = Some False"
proof -
  have dp: "truthy (parser_expenses u) \<longrightarrow>
      handleSubmit_dispatch u = Dispatched (in_store (setLoading ''parse'' True) u)"
    by (simp add: handleSubmit_dispatch_def)
  have dv: "get_prop (transactions (ui_store u)) ''length'' = Inr n \<and> truthy n \<longrightarrow>
      handleValidate_dispatch u = Dispatched (in_store (setLoading ''validate'' True) u)"
    by (simp add: handleValidate_dispatch_def)
  have df: "get_prop (transactions (ui_store u)) ''length'' = Inr n \<and> truthy n
        \<and> truthy (filter_config u) \<longrightarrow>
      handleFilter_dispatch u = Dispatched (in_store (setLoading ''filter'' True) u)"
    by (simp add: handleFilter_dispatch_def)
  have dr: "truthy (returns_input u) \<longrightarrow>
      handleCalculate_dispatch u = Dispatched (in_store (setLoading ''returns'' True) u)"
    by (simp add: handleCalculate_dispatch_def)
  have p: "handleSubmit_dispatch u = Dispatched u1 \<longrightarrow>
      loading (ui_store u1) ''parse'' = Some True
      \<and> loading (ui_store (handleSubmit t u)) ''parse'' = Some False"
    by (auto simp: handleSubmit_dispatch_def handleSubmit_def handleSubmit_settle_def
          loading_in_store_setLoading split: if_splits)
  have v: "handleValidate_dispatch u = Dispatched u1 \<longrightarrow>
      loading (ui_store u1) ''validate'' = Some True
      \<and> loading (ui_store (handleValidate t u)) ''validate'' = Some False"
    by (auto simp: handleValidate_dispatch_def handleValidate_def handleValidate_settle_def
          loading_in_store_setLoading split: if_splits sum.splits)
  have f: "handleFilter_dispatch u = Dispatched u1 \<longrightarrow>
      loading (ui_store u1) ''filter'' = Some True
      \<and> loading (ui_store (handleFilter t u)) ''filter'' = Some False"
    by (auto simp: handleFilter_dispatch_def handleFilter_def handleFilter_settle_def
          loading_in_store_setLoading split: if_splits sum.splits)
  have r: "handleCalculate_dispatch u = Dispatched u1 \<longrightarrow>
      loading (ui_store u1) ''returns'' = Some True
      \<and> loading (ui_store (handleCalculate t t' b u)) ''returns'' = Some False"
    by (auto simp: handleCalculate_dispatch_def handleCalculate_def handleCalculate_settle_def
          loading_in_store_setLoading split: if_splits)
  have s: "loading (ui_store (handleSubmit_settle out u')) ''parse'' = Some False"
    "loading (ui_store (handleValidate_settle out u')) ''validate'' = Some False"
    "loading (ui_store (handleFilter_settle out u')) ''filter'' = Some False"
    "loading (ui_store (handleCalculate_settle out2 u')) ''returns'' = Some False"
    by (simp_all add: handleSubmit_settle_def handleValidate_settle_def handleFilter_settle_def
          handleCalculate_settle_def loading_in_store_setLoading)
  from dp dv df dr p v f r s show ?thesis by blast
qed

lemma send_no_network:
  "fst (send (\<lambda>n. NoResponse)) = Inl \<lparr> err_config = Some 0, err_response = None \<rparr>"
  using send_outcome [of "\<lambda>n. NoResponse"] by (simp add: attempt_def)

lemma ready_transactions:
  "get_prop (transactions (ui_store ready_validate)) ''length'' = Inr (JNum 1)"
  "get_prop (transactions (ui_store ready_filter)) ''length'' = Inr (JNum 1)"
  by (simp_all add: ready_filter_def ready_validate_def setTransactions_def zustand_set_def
        zustand_merge_def no_patch_def pick_def)

theorem loading_flag_released_witness:
  "handleSubmit_dispatch ready_parse
     = Dispatched (in_store (setLoading ''parse'' True) ready_parse)
   \<and> loading (ui_store (in_store (setLoading ''parse'' True) ready_parse)) ''parse'' = Some True
   \<and> loading (ui_store (handleSubmit (\<lambda>n. NoResponse) ready_parse)) ''parse'' = Some False
   \<and> ui_toasts (handleSubmit (\<lambda>n. NoResponse) ready_parse)
       = [ToastError (JStr ''Failed to parse'')]
   \<and> handleValidate_dispatch ready_validate
     = Dispatched (in_store (setLoading ''validate'' True) ready_validate)
   \<and> loading (ui_store (in_store (setLoading ''validate'' True) ready_validate)) ''validate''
       = Some True
   \<and> loading (ui_store (handleValidate (\<lambda>n. NoResponse) ready_validate)) ''validate''
       = Some False
   \<and> handleFilter_dispatch ready_filter
     = Dispatched (in_store (setLoading ''filter'' True) ready_filter)
   \<and> loading (ui_store (in_store (setLoading ''filter'' True) ready_filter)) ''filter''
       = Some True
   \<and> loading (ui_store (handleFilter (\<lambda>n. NoResponse) ready_filter)) ''filter'' = Some False
   \<and> handleCalculate_dispatch ready_returns
     = Dispatched (in_store (setLoading ''returns'' True) ready_returns)
   \<and> loading (ui_store (in_store (setLoading ''returns'' True) ready_returns)) ''returns''
       = Some True
   \<and> loading (ui_store (handleCalculate (\<lambda>n. NoResponse) flaky False ready_returns))
        ''returns'' = Some False"
proof -
  note p = loading_flag_released
             [of ready_parse "in_store (setLoading ''parse'' True) ready_parse" "\<lambda>n. NoResponse"]
  note v = loading_flag_released
             [of ready_validate "in_store (setLoading ''validate'' True) ready_validate"
                 "\<lambda>n. NoResponse" _ _ "JNum 1"]
  note f = loading_flag_released
             [of ready_filter "in_store (setLoading ''filter'' True) ready_filter"
                 "\<lambda>n. NoResponse" _ _ "JNum 1"]
  note r = loading_flag_released
             [of ready_returns "in_store (setLoading ''returns'' True) ready_returns"
                 "\<lambda>n. NoResponse" _ _ _ flaky False]
  have tp: "truthy (parser_expenses ready_parse)" by (simp add: ready_parse_def initial_ui_def)
  have tf: "truthy (filter_config ready_filter)" by (simp add: ready_filter_def)
  have tr: "truthy (returns_input ready_returns)" by (simp add: ready_returns_def)
  have toasts: "ui_toasts (handleSubmit (\<lambda>n. NoResponse) ready_parse)
                  = [ToastError (JStr ''Failed to parse'')]"
    by (simp add: handleSubmit_def handleSubmit_dispatch_def send_no_network
          handleSubmit_settle_def toast_failure_def show_toast_def in_store_def
          error_detail_def js_or_def ready_parse_def initial_ui_def)
  have "handleSubmit_dispatch ready_parse
          = Dispatched (in_store (setLoading ''parse'' True) ready_parse)
        \<and> loading (ui_store (in_store (setLoading ''parse'' True) ready_parse)) ''parse''
            = Some True
        \<and> loading (ui_store (handleSubmit (\<lambda>n. NoResponse) ready_parse)) ''parse'' = Some False"
    using p tp by blast
  moreover have "handleValidate_dispatch ready_validate
          = Dispatched (in_store (setLoading ''validate'' True) ready_validate)
        \<and> loading (ui_store (in_store (setLoading ''validate'' True) ready_validate))
             ''validate'' = Some True
        \<and> loading (ui_store (handleValidate (\<lambda>n. NoResponse) ready_validate)) ''validate''
            = Some False"
    using v ready_transactions(1) by simp
  moreover have "handleFilter_dispatch ready_filter
          = Dispatched (in_store (setLoading ''filter'' True) ready_filter)
        \<and> loading (ui_store (in_store (setLoading ''filter'' True) ready_filter)) ''filter''
            = Some True
        \<and> loading (ui_store (handleFilter (\<lambda>n. NoResponse) ready_filter)) ''filter''
            = Some False"
    using f ready_transactions(2) tf by simp
  moreover have "handleCalculate_dispatch ready_returns
          = Dispatched (in_store (setLoading ''returns'' True) ready_returns)
        \<and> loading (ui_store (in_store (setLoading ''returns'' True) ready_returns)) ''returns''
            = Some True
        \<and> loading (ui_store (handleCalculate (\<lambda>n. NoResponse) flaky False ready_returns))
             ''returns'' = Some False"
    using r tr by blast
  ultimately show ?thesis using toasts by blast
qed

end
